theory Spec2Isabelle
  imports Complex_Main "HOL-Library.Sublist"
begin

section \<open>The novelty engine of Novelty Alert.py\<close>

text \<open>
  The engine works on Python floats and torch tensors. Here every float is a \<open>real\<close>:
  rounding, infinities and NaN are outside this development, and every statement below is
  about the exact arithmetic of the expressions the source evaluates. The language model and
  the tokenizer are external objects; they enter as a record of functions, and each theorem
  holds for every such record.
\<close>

subsection \<open>Data\<close>

datatype py_error = StopIteration | IndexError | ZeroDivisionError | CapabilityError string

record NoveltyConfig =
  attention_normalizer :: real
  eps :: real
  target_layers :: "string list"
  novelty_threshold :: real

text \<open>A named parameter tensor: its name, its values (flattened) and its \<open>.grad\<close>.\<close>

record parameter =
  pname :: string
  pdata :: "real list"
  pgrad :: "real list option"

text \<open>The model object: \<open>named_parameters()\<close> and the \<open>training\<close> flag.\<close>

record model =
  named_parameters :: "parameter list"
  training :: bool

type_synonym weights = "(string \<times> real list) list"

text \<open>
  What the engine calls on the external objects: \<open>tokenizer(text)\<close> (the input ids),
  \<open>model(**inputs).logits\<close> (one logit vector per position, batch of one) and
  \<open>model(**inputs, labels=input_ids)\<close>, whose loss yields on \<open>backward()\<close> a gradient for
  each parameter of the loss's graph (\<open>None\<close> for the others). Both forward passes see the
  mode flag and the weights, and either may raise.
\<close>

record capability =
  tokenizer :: "string \<Rightarrow> nat list"
  forward :: "bool \<Rightarrow> weights \<Rightarrow> nat list \<Rightarrow> py_error + real list list"
  forward_loss :: "bool \<Rightarrow> weights \<Rightarrow> nat list \<Rightarrow> py_error + (string \<Rightarrow> real list option)"

text \<open>The dictionary \<open>compute\<close> returns.\<close>

record result =
  novelty :: real
  kl :: real
  fisher :: real
  tokens :: nat

text \<open>A row of \<open>data_log\<close>.\<close>

record log_row =
  row_text :: string
  is_alert :: bool
  row_res :: result

subsection \<open>Step 1: KL divergence\<close>

definition state_dict :: "model \<Rightarrow> weights" where
  "state_dict m = map (\<lambda>p. (pname p, pdata p)) (named_parameters m)"

text \<open>\<open>logits[:, -1, :]\<close>: indexing the last position of an empty axis raises.\<close>

definition last_position :: "real list list \<Rightarrow> py_error + real list" where
  "last_position ls = (if ls = [] then Inl IndexError else Inr (last ls))"

definition log_softmax :: "real list \<Rightarrow> real list" where
  "log_softmax xs = map (\<lambda>x. x - ln (sum_list (map exp xs))) xs"

text \<open>
  \<open>F.kl_div(input, target, log_target=True, reduction="batchmean")\<close>: the pointwise terms
  \<open>exp(target) * (target - input)\<close>, summed and divided by the batch size, which is one.
\<close>

definition kl_div :: "real list \<Rightarrow> real list \<Rightarrow> real" where
  "kl_div inp target = sum_list (map2 (\<lambda>i t. exp t * (t - i)) inp target) / 1"

definition distribution_analyzer :: "real list \<Rightarrow> real" where
  "distribution_analyzer logits =
     (let log_p = log_softmax logits;
          log_uniform = - ln (real (length logits))
      in kl_div (replicate (length log_p) log_uniform) log_p)"

subsection \<open>Step 2: Fisher trace\<close>

definition zero_grad :: "model \<Rightarrow> model" where
  "zero_grad m = m\<lparr>named_parameters := map (\<lambda>p. p\<lparr>pgrad := None\<rparr>) (named_parameters m)\<rparr>"

text \<open>\<open>backward()\<close> adds to a gradient that is there and sets one that is not.\<close>

definition accumulate :: "real list option \<Rightarrow> real list \<Rightarrow> real list option" where
  "accumulate old g = (case old of None \<Rightarrow> Some g | Some og \<Rightarrow> Some (map2 (+) og g))"

definition backward :: "(string \<Rightarrow> real list option) \<Rightarrow> model \<Rightarrow> model" where
  "backward gs m =
     m\<lparr>named_parameters :=
         map (\<lambda>p. case gs (pname p) of None \<Rightarrow> p
                   | Some g \<Rightarrow> p\<lparr>pgrad := accumulate (pgrad p) g\<rparr>)
             (named_parameters m)\<rparr>"

text \<open>\<open>t in n\<close> on Python strings.\<close>

fun py_in :: "string \<Rightarrow> string \<Rightarrow> bool" where
  "py_in t [] = (t = [])"
| "py_in t (c # cs) = (prefix t (c # cs) \<or> py_in t cs)"

definition pow2_sum :: "real list \<Rightarrow> real" where
  "pow2_sum g = sum_list (map (\<lambda>x. x ^ 2) g)"

definition fisher_sum :: "string list \<Rightarrow> parameter list \<Rightarrow> real" where
  "fisher_sum targets ps =
     sum_list (map (\<lambda>p. pow2_sum (the (pgrad p)))
       (filter (\<lambda>p. list_ex (\<lambda>t. py_in t (pname p)) targets \<and> pgrad p \<noteq> None) ps))"

definition sensitivity_analyzer ::
  "NoveltyConfig \<Rightarrow> capability \<Rightarrow> model \<Rightarrow> nat list \<Rightarrow> (py_error + real) \<times> model" where
  "sensitivity_analyzer cfg cap m inputs =
     (let m1 = m\<lparr>training := False\<rparr> in
      case forward_loss cap (training m1) (state_dict m1) inputs of
        Inl e \<Rightarrow> (Inl e, m1)
      | Inr gs \<Rightarrow>
          (let m2 = zero_grad m1;
               m3 = backward gs m2;
               fisher_trace = fisher_sum (target_layers cfg) (named_parameters m3);
               m4 = zero_grad m3
           in (Inr fisher_trace, m4)))"

subsection \<open>Step 3: the novelty score\<close>


definition novelty_functional :: "real \<Rightarrow> real \<Rightarrow> nat \<Rightarrow> real \<Rightarrow> real \<Rightarrow> py_error + real" where
  "novelty_functional kl_v fisher_trace token_count normalizer e =
     (if normalizer = 0 then Inl ZeroDivisionError
      else if real token_count / normalizer + e = 0 then Inl ZeroDivisionError
      else Inr ((kl_v * fisher_trace) / (real token_count / normalizer + e)))"

definition compute ::
  "NoveltyConfig \<Rightarrow> capability \<Rightarrow> model \<Rightarrow> string \<Rightarrow> (py_error + result) \<times> model" where
  "compute cfg cap m text =
     (if named_parameters m = [] then (Inl StopIteration, m)
      else
        let inputs = tokenizer cap text in
        case forward cap (training m) (state_dict m) inputs of
          Inl e \<Rightarrow> (Inl e, m)
        | Inr positions \<Rightarrow>
            (case last_position positions of
               Inl e \<Rightarrow> (Inl e, m)
             | Inr logits \<Rightarrow>
                 (let kl_v = distribution_analyzer logits in
                  case sensitivity_analyzer cfg cap m inputs of
                    (Inl e, m') \<Rightarrow> (Inl e, m')
                  | (Inr fisher_trace, m') \<Rightarrow>
                      (let token_count = length inputs in
                       case novelty_functional kl_v fisher_trace token_count
                              (attention_normalizer cfg) (eps cfg) of
                         Inl e \<Rightarrow> (Inl e, m')
                       | Inr nov \<Rightarrow>
                           (Inr \<lparr>novelty = nov, kl = kl_v, fisher = fisher_trace,
                                 tokens = token_count\<rparr>, m')))))"

subsection \<open>The loop of \<open>run_simulation_2d\<close>\<close>

definition default_config :: NoveltyConfig where
  "default_config =
     \<lparr>attention_normalizer = 512, eps = 1 / 10 ^ 6, target_layers = [''lm_head''],
      novelty_threshold = 1 / 2\<rparr>"

definition is_outlier :: "NoveltyConfig \<Rightarrow> result \<Rightarrow> bool" where
  "is_outlier cfg r = (novelty r > novelty_threshold cfg)"

text \<open>
  The loop over the texts, with the model and \<open>data_log\<close> as its state. An exception of
  \<open>compute\<close> is not caught: the loop ends there, and the triple holds the exception and the
  state at that moment.
\<close>

fun process_texts ::
  "NoveltyConfig \<Rightarrow> capability \<Rightarrow> string list \<Rightarrow> model \<Rightarrow> log_row list
     \<Rightarrow> py_error option \<times> model \<times> log_row list" where
  "process_texts cfg cap [] m data_log = (None, m, data_log)"
| "process_texts cfg cap (t # ts) m data_log =
     (case compute cfg cap m t of
        (Inl e, m') \<Rightarrow> (Some e, m', data_log)
      | (Inr r, m') \<Rightarrow>
          process_texts cfg cap ts m'
            (data_log @ [\<lparr>row_text = t, is_alert = is_outlier cfg r, row_res = r\<rparr>]))"

definition run_simulation_2d ::
  "capability \<Rightarrow> model \<Rightarrow> string list \<Rightarrow> py_error option \<times> model \<times> log_row list" where
  "run_simulation_2d cap m texts = process_texts default_config cap texts m []"

subsection \<open>The two directions of the divergence\<close>

text \<open>
  The next-token distribution of the model, and the divergence between it and the uniform
  distribution over the vocabulary, written out in both directions: of the model from the
  uniform reference (\<open>kl_model_uniform\<close>, the sum of \<open>p * (ln p - ln u)\<close>) and of the
  uniform reference from the model (\<open>kl_uniform_model\<close>, the sum of \<open>u * (ln u - ln p)\<close>).
  Neither is taken from the source: they are the two readings the engine's divergence is
  compared with.
\<close>

definition softmax :: "real list \<Rightarrow> real list" where
  "softmax xs = map (\<lambda>x. exp x / sum_list (map exp xs)) xs"

definition kl_model_uniform :: "real list \<Rightarrow> real" where
  "kl_model_uniform logits =
     (\<Sum>p\<leftarrow>softmax logits. p * (ln p - ln (1 / real (length logits))))"

definition kl_uniform_model :: "real list \<Rightarrow> real" where
  "kl_uniform_model logits =
     (\<Sum>p\<leftarrow>softmax logits. (1 / real (length logits)) * (ln (1 / real (length logits)) - ln p))"

subsection \<open>A small model and tokenizer for concrete runs\<close>

text \<open>
  One token per character; the logits \<open>[0, ln 3]\<close> at every position; a loss whose graph
  holds \<open>lm_head.weight\<close> only. The model starts in training mode with a stale gradient.
\<close>

definition mock_capability :: capability where
  "mock_capability =
     \<lparr>tokenizer = map (\<lambda>c. 0),
      forward = (\<lambda>tr w ids. Inr (map (\<lambda>i. [0, ln 3]) ids)),
      forward_loss = (\<lambda>tr w ids. Inr (\<lambda>n. if n = ''lm_head.weight'' then Some [1, 2] else None))\<rparr>"


text \<open>
  The same, with logits that depend on the position: \<open>[0, 0]\<close> everywhere but at the last
  position, where they are \<open>[0, ln 3]\<close>.
\<close>

definition positional_capability :: capability where
  "positional_capability =
     mock_capability\<lparr>forward := (\<lambda>tr w ids. if ids = [] then Inr []
                                            else Inr (map (\<lambda>i. [0, 0]) (butlast ids) @ [[0, ln 3]]))\<rparr>"

definition mock_model :: model where
  "mock_model =
     \<lparr>named_parameters =
        [\<lparr>pname = ''lm_head.weight'', pdata = [1, 2], pgrad = Some [5, 5]\<rparr>,
         \<lparr>pname = ''wte.weight'', pdata = [3], pgrad = None\<rparr>],
      training = True\<rparr>"

definition mock_model_after :: model where
  "mock_model_after =
     \<lparr>named_parameters =
        [\<lparr>pname = ''lm_head.weight'', pdata = [1, 2], pgrad = None\<rparr>,
         \<lparr>pname = ''wte.weight'', pdata = [3], pgrad = None\<rparr>],
      training = False\<rparr>"

definition mock_result :: result where
  "mock_result =
     \<lparr>novelty = distribution_analyzer [0, ln 3] * 5 / (2 / 512 + 1 / 10 ^ 6),
      kl = distribution_analyzer [0, ln 3], fisher = 5, tokens = 2\<rparr>"

section \<open>Auxiliary facts\<close>

subsection \<open>The divergence\<close>

lemma sum_exp_pos:
  assumes "xs \<noteq> []"
  shows "0 < sum_list (map exp (xs :: real list))"
proof (cases xs)
  case Nil
  with assms show ?thesis by simp
next
  case (Cons a as)
  have "0 \<le> sum_list (map exp as)" by (rule sum_list_nonneg) auto
  then have "0 < exp a + sum_list (map exp as)" by (rule add_pos_nonneg[OF exp_gt_zero])
  then show ?thesis using Cons by simp
qed



lemma map2_replicate: "map2 f (replicate (length ys) c) ys = map (f c) ys"
  by (induction ys) simp_all

lemma distribution_analyzer_sum:
  "distribution_analyzer xs =
     (\<Sum>lp\<leftarrow>log_softmax xs. exp lp * (lp + ln (real (length xs))))"
  by (simp add: distribution_analyzer_def kl_div_def Let_def map2_replicate)




lemma distribution_analyzer_kl_model_uniform:
  "distribution_analyzer logits = kl_model_uniform logits"
proof (cases "logits = []")
  case True
  then show ?thesis
    by (simp add: distribution_analyzer_sum kl_model_uniform_def log_softmax_def softmax_def)
next
  case False
  define S where "S = sum_list (map exp logits)"
  have Spos: "0 < S" using False unfolding S_def by (rule sum_exp_pos)
  have Vpos: "0 < real (length logits)" using False by simp
  have "exp (x - ln S) * (x - ln S + ln (real (length logits)))
        = exp x / S * (ln (exp x / S) - ln (1 / real (length logits)))" for x
    using Spos Vpos by (simp add: exp_diff ln_div)
  then show ?thesis
    by (simp add: distribution_analyzer_sum kl_model_uniform_def log_softmax_def softmax_def
        comp_def S_def)
qed

lemma distribution_analyzer_example: "distribution_analyzer [0, ln 3] = 3 / 4 * ln 3 - ln 2"
proof -
  have ln4: "ln (4::real) = 2 * ln 2"
    using ln_realpow[of "2::real" 2] by simp
  have "distribution_analyzer [0, ln 3]
          = 1 / 4 * (ln 2 - ln 4) + 3 / 4 * (ln 3 - ln 4 + ln 2)"
    by (simp add: distribution_analyzer_sum log_softmax_def exp_diff exp_minus)
  also have "\<dots> = 3 / 4 * ln 3 - ln 2"
    unfolding ln4 by (simp add: field_simps)
  finally show ?thesis .
qed

lemma kl_uniform_model_example: "kl_uniform_model [0, ln 3] = ln 2 - 1 / 2 * ln 3"
proof -
  have ln4: "ln (4::real) = 2 * ln 2"
    using ln_realpow[of "2::real" 2] by simp
  have "kl_uniform_model [0, ln 3]
          = 1 / 2 * (ln 4 - ln 2) + 1 / 2 * (ln 4 - ln 2 - ln 3)"
    by (simp add: kl_uniform_model_def softmax_def ln_div)
  also have "\<dots> = ln 2 - 1 / 2 * ln 3"
    unfolding ln4 by (simp add: field_simps)
  finally show ?thesis .
qed

lemma ln_3_ln_2_independent: "5 * ln (3::real) \<noteq> 8 * ln 2"
proof
  assume "5 * ln (3::real) = 8 * ln 2"
  moreover have "ln ((3::real) ^ 5) = 5 * ln 3" "ln ((2::real) ^ 8) = 8 * ln 2"
    by (simp_all only: ln_realpow of_nat_numeral)
  ultimately have "ln ((3::real) ^ 5) = ln (2 ^ 8)" by simp
  then have "(3::real) ^ 5 = 2 ^ 8"
    by (subst (asm) ln_inj_iff) simp_all
  then show False by simp
qed

subsection \<open>Gradients, weights and the loop\<close>

lemma py_in_sublist: "py_in t n = sublist t n"
  by (induction n) (simp_all add: sublist_Cons_right)

lemma py_in_iff: "py_in t n \<longleftrightarrow> (\<exists>a b. n = a @ t @ b)"
  by (simp add: py_in_sublist sublist_def)



lemma fisher_sum_char:
  "fisher_sum targets ps =
     (\<Sum>p\<leftarrow>ps. if (\<exists>t\<in>set targets. \<exists>a b. pname p = a @ t @ b)
               then (case pgrad p of None \<Rightarrow> 0 | Some g \<Rightarrow> (\<Sum>x\<leftarrow>g. x ^ 2)) else 0)"
  by (induction ps) (auto simp: fisher_sum_def pow2_sum_def list_ex_iff py_in_iff)

lemma zero_grad_params:
  "named_parameters (zero_grad m) =
     map (\<lambda>(n, d). \<lparr>pname = n, pdata = d, pgrad = None\<rparr>) (state_dict m)"
  by (simp add: zero_grad_def state_dict_def comp_def)

lemma backward_zero_grad_params:
  "named_parameters (backward gs (zero_grad m)) =
     map (\<lambda>(n, d). \<lparr>pname = n, pdata = d, pgrad = gs n\<rparr>) (state_dict m)"
  by (auto simp: backward_def zero_grad_def state_dict_def comp_def accumulate_def
      split: option.splits)

lemma state_dict_training: "state_dict (m\<lparr>training := b\<rparr>) = state_dict m"
  by (simp add: state_dict_def)

lemma state_dict_zero_grad: "state_dict (zero_grad m) = state_dict m"
  by (simp add: state_dict_def zero_grad_def comp_def)

lemma state_dict_backward: "state_dict (backward gs m) = state_dict m"
  by (auto simp: state_dict_def backward_def comp_def split: option.splits)

lemma sensitivity_fst:
  "fst (sensitivity_analyzer cfg cap m inputs) =
     (case forward_loss cap False (state_dict m) inputs of
        Inl e \<Rightarrow> Inl e
      | Inr gs \<Rightarrow> Inr (fisher_sum (target_layers cfg)
           (map (\<lambda>(n, d). \<lparr>pname = n, pdata = d, pgrad = gs n\<rparr>) (state_dict m))))"
  by (simp add: sensitivity_analyzer_def Let_def state_dict_training
      backward_zero_grad_params[of _ "m\<lparr>training := False\<rparr>", simplified state_dict_training]
      split: sum.splits)

lemma sensitivity_state_dict:
  "state_dict (snd (sensitivity_analyzer cfg cap m inputs)) = state_dict m"
  by (simp add: sensitivity_analyzer_def Let_def state_dict_zero_grad state_dict_backward
      state_dict_training split: sum.splits)

lemma sensitivity_training:
  "\<not> training (snd (sensitivity_analyzer cfg cap m inputs))"
  by (simp add: sensitivity_analyzer_def Let_def zero_grad_def backward_def split: sum.splits)

lemma sensitivity_grads_cleared:
  "fst (sensitivity_analyzer cfg cap m inputs) = Inr v \<Longrightarrow>
     p \<in> set (named_parameters (snd (sensitivity_analyzer cfg cap m inputs))) \<Longrightarrow> pgrad p = None"
  by (auto simp: sensitivity_analyzer_def Let_def zero_grad_def split: sum.splits)

lemma sensitivity_cong:
  "state_dict m = state_dict m' \<Longrightarrow>
     fst (sensitivity_analyzer cfg cap m inputs) = fst (sensitivity_analyzer cfg cap m' inputs)"
  by (simp add: sensitivity_fst split: sum.splits)


lemma compute_state_dict: "state_dict (snd (compute cfg cap m text)) = state_dict m"
  using sensitivity_state_dict[of cfg cap m "tokenizer cap text"]
  by (auto simp: compute_def Let_def split: sum.splits prod.splits)

lemma compute_Inr:
  assumes "fst (compute cfg cap m text) = Inr r"
  shows "\<exists>positions. named_parameters m \<noteq> [] \<and>
           forward cap (training m) (state_dict m) (tokenizer cap text) = Inr positions \<and>
           positions \<noteq> [] \<and> kl r = distribution_analyzer (last positions)"
    and "fst (sensitivity_analyzer cfg cap m (tokenizer cap text)) = Inr (fisher r)"
    and "snd (compute cfg cap m text) = snd (sensitivity_analyzer cfg cap m (tokenizer cap text))"
    and "tokens r = length (tokenizer cap text)"
    and "novelty_functional (kl r) (fisher r) (tokens r) (attention_normalizer cfg) (eps cfg)
           = Inr (novelty r)"
  using assms
  by (auto simp: compute_def Let_def last_position_def split: sum.splits prod.splits if_splits)

lemma fold_compute_state_dict:
  "state_dict (fold (\<lambda>t mm. snd (compute cfg cap mm t)) ts m) = state_dict m"
  by (induction ts arbitrary: m) (simp_all add: compute_state_dict)


lemma process_texts_rows:
  assumes "\<forall>row\<in>set data_log. is_alert row = (novelty (row_res row) > novelty_threshold cfg)"
  shows "\<forall>row\<in>set (snd (snd (process_texts cfg cap ts m data_log))).
           is_alert row = (novelty (row_res row) > novelty_threshold cfg)"
  using assms
proof (induction ts arbitrary: m data_log)
  case Nil
  then show ?case by simp
next
  case (Cons t ts)
  obtain res m' where c: "compute cfg cap m t = (res, m')" by (cases "compute cfg cap m t")
  show ?case
  proof (cases res)
    case (Inl e)
    with c Cons.prems show ?thesis by simp
  next
    case (Inr r)
    let ?log = "data_log @ [\<lparr>row_text = t, is_alert = is_outlier cfg r, row_res = r\<rparr>]"
    have "\<forall>row\<in>set ?log. is_alert row = (novelty (row_res row) > novelty_threshold cfg)"
      using Cons.prems by (simp add: is_outlier_def)
    then have "\<forall>row\<in>set (snd (snd (process_texts cfg cap ts m' ?log))).
                 is_alert row = (novelty (row_res row) > novelty_threshold cfg)"
      by (rule Cons.IH)
    with c Inr show ?thesis by simp
  qed
qed


subsection \<open>The concrete runs\<close>

lemma mock_sensitivity:
  "sensitivity_analyzer default_config mock_capability mock_model [0, 0] = (Inr 5, mock_model_after)"
  by (simp add: sensitivity_analyzer_def mock_capability_def mock_model_def mock_model_after_def
      Let_def zero_grad_def backward_def accumulate_def fisher_sum_def default_config_def
      pow2_sum_def)

lemma mock_compute:
  "compute default_config mock_capability mock_model ''ab'' = (Inr mock_result, mock_model_after)"
proof -
  have *: "tokenizer mock_capability ''ab'' = [0, 0]"
    "forward mock_capability (training mock_model) (state_dict mock_model) [0, 0]
       = Inr [[0, ln 3], [0, ln 3]]"
    "named_parameters mock_model \<noteq> []"
    by (simp_all add: mock_capability_def mock_model_def)
  have c: "attention_normalizer default_config = 512" "eps default_config = 1 / 10 ^ 6"
    by (simp_all add: default_config_def)
  show ?thesis
    by (simp add: compute_def Let_def last_position_def mock_sensitivity novelty_functional_def
        mock_result_def c *)
qed

lemma mock_compute_empty:
  "compute default_config mock_capability mock_model [] = (Inl IndexError, mock_model)"
proof -
  have *: "tokenizer mock_capability [] = []"
    "forward mock_capability (training mock_model) (state_dict mock_model) [] = Inr []"
    "named_parameters mock_model \<noteq> []"
    by (simp_all add: mock_capability_def mock_model_def)
  show ?thesis
    by (simp add: compute_def Let_def last_position_def *)
qed


lemma fisher_sum_set:
  "set targets' = set targets \<Longrightarrow> fisher_sum targets' ps = fisher_sum targets ps"
  by (simp only: fisher_sum_char)

lemma mock_fisher_sum:
  "fisher_sum [''lm_'', ''head''] (named_parameters mock_model) = 50"
  by (simp add: fisher_sum_def mock_model_def pow2_sum_def)

lemma mock_sensitivity_after:
  "sensitivity_analyzer default_config mock_capability mock_model_after [0, 0]
     = (Inr 5, mock_model_after)"
  by (simp add: sensitivity_analyzer_def mock_capability_def mock_model_after_def
      Let_def zero_grad_def backward_def accumulate_def fisher_sum_def default_config_def
      pow2_sum_def)

lemma mock_compute_after:
  "compute default_config mock_capability mock_model_after ''ab''
     = (Inr mock_result, mock_model_after)"
proof -
  have *: "tokenizer mock_capability ''ab'' = [0, 0]"
    "forward mock_capability (training mock_model_after) (state_dict mock_model_after) [0, 0]
       = Inr [[0, ln 3], [0, ln 3]]"
    "named_parameters mock_model_after \<noteq> []"
    by (simp_all add: mock_capability_def mock_model_after_def)
  have c: "attention_normalizer default_config = 512" "eps default_config = 1 / 10 ^ 6"
    by (simp_all add: default_config_def)
  show ?thesis
    by (simp add: compute_def Let_def last_position_def mock_sensitivity_after
        novelty_functional_def mock_result_def c *)
qed


lemma positional_sensitivity:
  "sensitivity_analyzer default_config positional_capability mock_model [0, 0]
     = (Inr 5, mock_model_after)"
  by (simp add: sensitivity_analyzer_def positional_capability_def mock_capability_def
      mock_model_def mock_model_after_def Let_def zero_grad_def backward_def accumulate_def
      fisher_sum_def default_config_def pow2_sum_def)

lemma positional_compute:
  "compute default_config positional_capability mock_model ''ab''
     = (Inr mock_result, mock_model_after)"
proof -
  have *: "tokenizer positional_capability ''ab'' = [0, 0]"
    "forward positional_capability (training mock_model) (state_dict mock_model) [0, 0]
       = Inr [[0, 0], [0, ln 3]]"
    "named_parameters mock_model \<noteq> []"
    by (simp_all add: positional_capability_def mock_capability_def mock_model_def)
  have c: "attention_normalizer default_config = 512" "eps default_config = 1 / 10 ^ 6"
    by (simp_all add: default_config_def)
  show ?thesis
    by (simp add: compute_def Let_def last_position_def positional_sensitivity
        novelty_functional_def mock_result_def c *)
qed

lemma kl_model_uniform_flat: "kl_model_uniform [0, 0] = 0"
  by (simp add: kl_model_uniform_def softmax_def)

lemma kl_model_uniform_example_pos: "0 < kl_model_uniform [0, ln 3]"
proof -
  have a: "ln ((2::real) ^ 4) < ln (3 ^ 3)" by (subst ln_less_cancel_iff) simp_all
  have b: "ln ((2::real) ^ 4) = 4 * ln 2" "ln ((3::real) ^ 3) = 3 * ln 3"
    by (simp_all only: ln_realpow of_nat_numeral)
  have "4 * ln (2::real) < 3 * ln 3" using a unfolding b .
  then show ?thesis
    by (simp add: distribution_analyzer_kl_model_uniform[symmetric] distribution_analyzer_example)
qed

section \<open>The claims\<close>

text \<open>
  C1. Whenever the per-text evaluation returns a result, its novelty is exactly
  \<open>(kl * fisher) / ((tokens / attention_normalizer) + eps)\<close>, with \<open>kl\<close>, \<open>fisher\<close> and
  \<open>tokens\<close> the values of the same result and the two constants those of the engine's
  configuration.
\<close>

theorem compute_novelty_formula:
  assumes "fst (compute cfg cap m text) = Inr r"
  shows "novelty r =
           (kl r * fisher r) / (real (tokens r) / attention_normalizer cfg + eps cfg)"
  using compute_Inr(5)[OF assms]
  by (auto simp: novelty_functional_def split: if_splits)

theorem compute_novelty_formula_witness:
  "fst (compute default_config mock_capability mock_model ''ab'') = Inr mock_result
   \<and> novelty mock_result =
       (kl mock_result * fisher mock_result)
         / (real (tokens mock_result) / attention_normalizer default_config + eps default_config)"
proof -
  have h: "fst (compute default_config mock_capability mock_model ''ab'') = Inr mock_result"
    by (simp add: mock_compute)
  show ?thesis using h compute_novelty_formula[OF h] by simp
qed

text \<open>
  C2. As the claim has it, the divergence would be that of the uniform reference from the
  model, \<open>kl_uniform_model\<close>. At the logits \<open>[0, ln 3]\<close> (probabilities 1/4 and 3/4) the
  engine returns \<open>3/4 * ln 3 - ln 2\<close>, the other direction gives \<open>ln 2 - 1/2 * ln 3\<close>, and
  the two differ.
\<close>

theorem kl_direction_counterexample:
  "distribution_analyzer [0, ln 3] \<noteq> kl_uniform_model [0, ln 3]"
  using ln_3_ln_2_independent by (simp add: distribution_analyzer_example kl_uniform_model_example)

text \<open>
  C2, amended. The divergence the engine returns is the one of the model's final-position
  distribution from the uniform reference, \<open>KL(model \<parallel> uniform)\<close>: the sum over the
  vocabulary of \<open>p * (ln p - ln (1/V))\<close>, computed from the log-softmax of the logits and the
  scalar \<open>-ln V\<close>, with the batch-mean reduction over a batch of one. The \<open>kl\<close> of every
  result is this divergence at the logits of the last position the forward pass returned.
\<close>

theorem distribution_analyzer_is_kl_model_uniform:
  "distribution_analyzer logits = kl_model_uniform logits \<and>
   (fst (compute cfg cap m text) = Inr r \<longrightarrow>
      (\<exists>positions. forward cap (training m) (state_dict m) (tokenizer cap text) = Inr positions \<and>
         positions \<noteq> [] \<and> kl r = kl_model_uniform (last positions)))"
proof (intro conjI impI)
  show "distribution_analyzer logits = kl_model_uniform logits"
    by (rule distribution_analyzer_kl_model_uniform)
next
  assume "fst (compute cfg cap m text) = Inr r"
  from compute_Inr(1)[OF this]
  show "\<exists>positions. forward cap (training m) (state_dict m) (tokenizer cap text) = Inr positions \<and>
         positions \<noteq> [] \<and> kl r = kl_model_uniform (last positions)"
    by (auto simp: distribution_analyzer_kl_model_uniform)
qed

theorem distribution_analyzer_is_kl_model_uniform_witness:
  "fst (compute default_config positional_capability mock_model ''ab'') = Inr mock_result \<and>
   forward positional_capability (training mock_model) (state_dict mock_model)
     (tokenizer positional_capability ''ab'') = Inr [[0, 0], [0, ln 3]] \<and>
   kl mock_result = kl_model_uniform [0, ln 3] \<and>
   kl_model_uniform [0, 0] = 0 \<and>
   0 < kl_model_uniform [0, ln 3]"
proof -
  have h: "fst (compute default_config positional_capability mock_model ''ab'') = Inr mock_result"
    by (simp add: positional_compute)
  have f: "forward positional_capability (training mock_model) (state_dict mock_model)
     (tokenizer positional_capability ''ab'') = Inr [[0, 0], [0, ln 3]]"
    by (simp add: positional_capability_def mock_capability_def)
  from distribution_analyzer_is_kl_model_uniform[of _ default_config positional_capability
      mock_model "''ab''" mock_result] h
  obtain positions where
    p: "forward positional_capability (training mock_model) (state_dict mock_model)
          (tokenizer positional_capability ''ab'') = Inr positions"
    and k: "kl mock_result = kl_model_uniform (last positions)"
    by blast
  from p f have "positions = [[0, 0], [0, ln 3]]" by simp
  with k have "kl mock_result = kl_model_uniform [0, ln 3]" by simp
  with h f kl_model_uniform_flat kl_model_uniform_example_pos show ?thesis by (intro conjI)
qed










text \<open>
  C6. Every row the loop logs is an alert exactly when its novelty is strictly greater than
  the threshold; with the threshold 0.5, novelty 0.51 is an alert, 0.49 is not, and 0.5 is
  not.
\<close>

theorem alert_iff_above_threshold:
  "(\<forall>row\<in>set (snd (snd (process_texts cfg cap texts m []))).
      is_alert row = (novelty (row_res row) > novelty_threshold cfg)) \<and>
   is_outlier (cfg\<lparr>novelty_threshold := 0.5\<rparr>) (r\<lparr>novelty := 0.51\<rparr>) \<and>
   \<not> is_outlier (cfg\<lparr>novelty_threshold := 0.5\<rparr>) (r\<lparr>novelty := 0.49\<rparr>) \<and>
   \<not> is_outlier (cfg\<lparr>novelty_threshold := 0.5\<rparr>) (r\<lparr>novelty := 0.5\<rparr>)"
proof -
  have "\<forall>row\<in>set (snd (snd (process_texts cfg cap texts m []))).
      is_alert row = (novelty (row_res row) > novelty_threshold cfg)"
    by (rule process_texts_rows) simp
  then show ?thesis by (simp add: is_outlier_def)
qed

theorem alert_iff_above_threshold_witness:
  "snd (snd (process_texts default_config mock_capability [''ab''] mock_model []))
     = [\<lparr>row_text = ''ab'', is_alert = is_outlier default_config mock_result,
         row_res = mock_result\<rparr>] \<and>
   is_outlier default_config mock_result
     = (novelty mock_result > novelty_threshold default_config)"
proof -
  have p: "snd (snd (process_texts default_config mock_capability [''ab''] mock_model []))
     = [\<lparr>row_text = ''ab'', is_alert = is_outlier default_config mock_result,
         row_res = mock_result\<rparr>]"
    by (simp add: mock_compute)
  from alert_iff_above_threshold[of default_config mock_capability "[''ab'']" mock_model]
  have "\<forall>row\<in>set (snd (snd (process_texts default_config mock_capability [''ab''] mock_model []))).
      is_alert row = (novelty (row_res row) > novelty_threshold default_config)"
    by blast
  with p show ?thesis by simp
qed

text \<open>
  C7. The trace is the sum, over the parameters whose name contains at least one entry of
  \<open>target_layers\<close> as a contiguous substring, of the sum of squares of the gradient; a selected
  parameter without a gradient adds zero and nothing is raised; two lists of targets with the
  same entries, in any order and with any repetition, give the same trace; and in the engine
  the gradients summed are exactly those of this call's backward pass.
\<close>

theorem fisher_trace_selection:
  "fisher_sum targets ps =
     (\<Sum>p\<leftarrow>ps. if (\<exists>t\<in>set targets. \<exists>a b. pname p = a @ t @ b)
               then (case pgrad p of None \<Rightarrow> 0 | Some g \<Rightarrow> (\<Sum>x\<leftarrow>g. x ^ 2)) else 0) \<and>
   (set targets' = set targets \<longrightarrow> fisher_sum targets' ps = fisher_sum targets ps) \<and>
   (forward_loss cap False (state_dict m) inputs = Inr gs \<longrightarrow>
      fst (sensitivity_analyzer cfg cap m inputs) =
        Inr (fisher_sum (target_layers cfg)
               (map (\<lambda>(n, d). \<lparr>pname = n, pdata = d, pgrad = gs n\<rparr>) (state_dict m))))"
proof (intro conjI impI)
  show "fisher_sum targets ps =
     (\<Sum>p\<leftarrow>ps. if (\<exists>t\<in>set targets. \<exists>a b. pname p = a @ t @ b)
               then (case pgrad p of None \<Rightarrow> 0 | Some g \<Rightarrow> (\<Sum>x\<leftarrow>g. x ^ 2)) else 0)"
    by (rule fisher_sum_char)
next
  assume "set targets' = set targets"
  then show "fisher_sum targets' ps = fisher_sum targets ps" by (rule fisher_sum_set)
next
  assume "forward_loss cap False (state_dict m) inputs = Inr gs"
  then show "fst (sensitivity_analyzer cfg cap m inputs) =
        Inr (fisher_sum (target_layers cfg)
               (map (\<lambda>(n, d). \<lparr>pname = n, pdata = d, pgrad = gs n\<rparr>) (state_dict m)))"
    by (simp add: sensitivity_fst)
qed

theorem fisher_trace_selection_witness:
  "set [''head'', ''lm_'', ''head''] = set [''lm_'', ''head''] \<and>
   fisher_sum [''head'', ''lm_'', ''head''] (named_parameters mock_model)
     = fisher_sum [''lm_'', ''head''] (named_parameters mock_model) \<and>
   fisher_sum [''lm_'', ''head''] (named_parameters mock_model) = 50 \<and>
   forward_loss mock_capability False (state_dict mock_model) [0, 0]
     = Inr (\<lambda>n. if n = ''lm_head.weight'' then Some [1, 2] else None) \<and>
   fst (sensitivity_analyzer default_config mock_capability mock_model [0, 0]) = Inr 5"
proof -
  let ?gs = "\<lambda>n. if n = ''lm_head.weight'' then Some [1, 2::real] else None"
  have s: "set [''head'', ''lm_'', ''head''] = set [''lm_'', ''head'']" by auto
  have g: "forward_loss mock_capability False (state_dict mock_model) [0, 0] = Inr ?gs"
    by (simp add: mock_capability_def)
  note t = fisher_trace_selection[of "[''lm_'', ''head'']" "named_parameters mock_model"
      "[''head'', ''lm_'', ''head'']" mock_capability mock_model "[0, 0]" ?gs default_config]
  from t have "set [''head'', ''lm_'', ''head''] = set [''lm_'', ''head''] \<longrightarrow>
     fisher_sum [''head'', ''lm_'', ''head''] (named_parameters mock_model)
     = fisher_sum [''lm_'', ''head''] (named_parameters mock_model)"
    by (elim conjE)
  with s have e: "fisher_sum [''head'', ''lm_'', ''head''] (named_parameters mock_model)
     = fisher_sum [''lm_'', ''head''] (named_parameters mock_model)" by (rule rev_mp)
  have r: "fst (sensitivity_analyzer default_config mock_capability mock_model [0, 0]) = Inr 5"
    by (simp add: mock_sensitivity)
  from s e mock_fisher_sum g r show ?thesis by (intro conjI)
qed

text \<open>
  C8. The trace of a reference input is the same after any number of evaluations as after
  none, and the same whatever gradients the model held before the call; after the trace is
  read every gradient is cleared; and the \<open>fisher\<close> of a result does not depend on the
  evaluations that came before.
\<close>

theorem no_gradient_leakage:
  "fst (sensitivity_analyzer cfg cap (fold (\<lambda>t mm. snd (compute cfg cap mm t)) ts m) ref)
     = fst (sensitivity_analyzer cfg cap m ref) \<and>
   fst (sensitivity_analyzer cfg cap
          (m\<lparr>named_parameters := map (\<lambda>p. p\<lparr>pgrad := stale p\<rparr>) (named_parameters m)\<rparr>) ref)
     = fst (sensitivity_analyzer cfg cap m ref) \<and>
   (fst (sensitivity_analyzer cfg cap m ref) = Inr v \<longrightarrow>
      (\<forall>p\<in>set (named_parameters (snd (sensitivity_analyzer cfg cap m ref))). pgrad p = None)) \<and>
   (fst (compute cfg cap (fold (\<lambda>t mm. snd (compute cfg cap mm t)) ts m) text) = Inr r' \<and>
    fst (compute cfg cap m text) = Inr r \<longrightarrow> fisher r' = fisher r)"
proof (intro conjI impI ballI)
  let ?m' = "fold (\<lambda>t mm. snd (compute cfg cap mm t)) ts m"
  have sd: "state_dict ?m' = state_dict m" by (rule fold_compute_state_dict)
  show "fst (sensitivity_analyzer cfg cap ?m' ref) = fst (sensitivity_analyzer cfg cap m ref)"
    using sd by (rule sensitivity_cong)
  have "state_dict (m\<lparr>named_parameters := map (\<lambda>p. p\<lparr>pgrad := stale p\<rparr>) (named_parameters m)\<rparr>)
          = state_dict m"
    by (simp add: state_dict_def comp_def)
  then show "fst (sensitivity_analyzer cfg cap
          (m\<lparr>named_parameters := map (\<lambda>p. p\<lparr>pgrad := stale p\<rparr>) (named_parameters m)\<rparr>) ref)
     = fst (sensitivity_analyzer cfg cap m ref)"
    by (rule sensitivity_cong)
  show "pgrad p = None"
    if "fst (sensitivity_analyzer cfg cap m ref) = Inr v"
      and "p \<in> set (named_parameters (snd (sensitivity_analyzer cfg cap m ref)))" for p
    using that by (rule sensitivity_grads_cleared)
  show "fisher r' = fisher r"
    if h: "fst (compute cfg cap ?m' text) = Inr r' \<and> fst (compute cfg cap m text) = Inr r"
  proof -
    from h have a: "fst (sensitivity_analyzer cfg cap ?m' (tokenizer cap text)) = Inr (fisher r')"
      by (intro compute_Inr(2)) simp
    from h have b: "fst (sensitivity_analyzer cfg cap m (tokenizer cap text)) = Inr (fisher r)"
      by (intro compute_Inr(2)) simp
    have "fst (sensitivity_analyzer cfg cap ?m' (tokenizer cap text))
            = fst (sensitivity_analyzer cfg cap m (tokenizer cap text))"
      using sd by (rule sensitivity_cong)
    with a b show ?thesis by simp
  qed
qed

theorem no_gradient_leakage_witness:
  "fold (\<lambda>t mm. snd (compute default_config mock_capability mm t)) [''ab'', ''ab''] mock_model
     = mock_model_after \<and>
   fst (sensitivity_analyzer default_config mock_capability mock_model [0, 0]) = Inr 5 \<and>
   fst (sensitivity_analyzer default_config mock_capability mock_model_after [0, 0]) = Inr 5 \<and>
   map pgrad (named_parameters
                (snd (sensitivity_analyzer default_config mock_capability mock_model [0, 0])))
     = [None, None] \<and>
   fst (compute default_config mock_capability mock_model_after ''ab'') = Inr mock_result \<and>
   fst (compute default_config mock_capability mock_model ''ab'') = Inr mock_result"
proof -
  have f: "fold (\<lambda>t mm. snd (compute default_config mock_capability mm t)) [''ab'', ''ab'']
             mock_model = mock_model_after"
    by (simp add: mock_compute mock_compute_after)
  have s: "fst (sensitivity_analyzer default_config mock_capability mock_model [0, 0]) = Inr 5"
    by (simp add: mock_sensitivity)
  have c1: "fst (compute default_config mock_capability mock_model_after ''ab'') = Inr mock_result"
    and c2: "fst (compute default_config mock_capability mock_model ''ab'') = Inr mock_result"
    by (simp_all add: mock_compute mock_compute_after)
  note t = no_gradient_leakage[of default_config mock_capability "[''ab'', ''ab'']" mock_model
      "[0, 0]"]
  from t have "fst (sensitivity_analyzer default_config mock_capability
                 (fold (\<lambda>t mm. snd (compute default_config mock_capability mm t))
                    [''ab'', ''ab''] mock_model) [0, 0])
     = fst (sensitivity_analyzer default_config mock_capability mock_model [0, 0])"
    by (rule conjunct1)
  then have s': "fst (sensitivity_analyzer default_config mock_capability mock_model_after [0, 0])
     = Inr 5"
    unfolding f s .
  have g: "map pgrad (named_parameters
                (snd (sensitivity_analyzer default_config mock_capability mock_model [0, 0])))
     = [None, None]"
    by (simp add: mock_sensitivity mock_model_after_def)
  from f s s' g c1 c2 show ?thesis by (intro conjI)
qed

text \<open>
  C9. An evaluation call never writes to the weights: after the call, whatever its outcome,
  the names and values of the model's parameters are the ones it had before.
\<close>

theorem compute_weights_unchanged:
  "state_dict (snd (compute cfg cap m text)) = state_dict m"
  by (rule compute_state_dict)

text \<open>
  C10. As the claim has it, the model would be in evaluation mode after any call. A call
  that raises in the first stage never reaches \<open>model.eval()\<close>: the model that was in
  training mode still is.
\<close>

theorem eval_mode_counterexample:
  "training mock_model \<and>
   fst (compute default_config mock_capability mock_model []) = Inl IndexError \<and>
   training (snd (compute default_config mock_capability mock_model []))"
  by (simp add: mock_compute_empty) (simp add: mock_model_def)

text \<open>
  C10, amended. Every call that returns a result, and more generally every call whose
  first stage completes, leaves the model in evaluation mode, whatever mode it was in
  before: the mode is set and never restored. A call that raises before or in the first
  stage (no parameter, a forward pass that raises, no position to select) leaves the model,
  and so its mode, as it was.
\<close>

theorem eval_mode_after_distribution_stage:
  "(fst (compute cfg cap m text) = Inr r \<longrightarrow> \<not> training (snd (compute cfg cap m text))) \<and>
   (named_parameters m \<noteq> [] \<and>
    forward cap (training m) (state_dict m) (tokenizer cap text) = Inr positions \<and>
    positions \<noteq> [] \<longrightarrow> \<not> training (snd (compute cfg cap m text))) \<and>
   (named_parameters m = [] \<or>
    forward cap (training m) (state_dict m) (tokenizer cap text) = Inl e \<or>
    forward cap (training m) (state_dict m) (tokenizer cap text) = Inr [] \<longrightarrow>
      snd (compute cfg cap m text) = m \<and>
      training (snd (compute cfg cap m text)) = training m)"
proof (intro conjI impI)
  assume "fst (compute cfg cap m text) = Inr r"
  from compute_Inr(3)[OF this] show "\<not> training (snd (compute cfg cap m text))"
    by (simp add: sensitivity_training)
next
  assume "named_parameters m \<noteq> [] \<and>
    forward cap (training m) (state_dict m) (tokenizer cap text) = Inr positions \<and>
    positions \<noteq> []"
  then show "\<not> training (snd (compute cfg cap m text))"
    using sensitivity_training[of cfg cap m "tokenizer cap text"]
    by (auto simp: compute_def Let_def last_position_def split: sum.splits prod.splits)
next
  assume h: "named_parameters m = [] \<or>
    forward cap (training m) (state_dict m) (tokenizer cap text) = Inl e \<or>
    forward cap (training m) (state_dict m) (tokenizer cap text) = Inr []"
  then show s: "snd (compute cfg cap m text) = m"
    by (auto simp: compute_def Let_def last_position_def)
  then show "training (snd (compute cfg cap m text)) = training m" by simp
qed

theorem eval_mode_after_distribution_stage_witness:
  "training mock_model \<and>
   fst (compute default_config mock_capability mock_model ''ab'') = Inr mock_result \<and>
   \<not> training (snd (compute default_config mock_capability mock_model ''ab'')) \<and>
   forward mock_capability (training mock_model) (state_dict mock_model)
     (tokenizer mock_capability []) = Inr [] \<and>
   snd (compute default_config mock_capability mock_model []) = mock_model \<and>
   training (snd (compute default_config mock_capability mock_model []))"
proof -
  have h: "fst (compute default_config mock_capability mock_model ''ab'') = Inr mock_result"
    by (simp add: mock_compute)
  have t: "training mock_model" by (simp add: mock_model_def)
  have f: "forward mock_capability (training mock_model) (state_dict mock_model)
     (tokenizer mock_capability []) = Inr []"
    by (simp add: mock_capability_def)
  from eval_mode_after_distribution_stage[where cfg = default_config and cap = mock_capability
      and m = mock_model and ?text = "''ab''" and r = mock_result] h
  have a: "\<not> training (snd (compute default_config mock_capability mock_model ''ab''))" by blast
  from eval_mode_after_distribution_stage[where cfg = default_config and cap = mock_capability
      and m = mock_model and ?text = "[]"] f
  have b: "snd (compute default_config mock_capability mock_model []) = mock_model \<and>
           training (snd (compute default_config mock_capability mock_model [])) = training mock_model"
    by blast
  with t have c: "training (snd (compute default_config mock_capability mock_model []))" by simp
  from t h a f b c show ?thesis by (intro conjI) simp_all
qed

end
